theory Spec2Isabelle
  imports Main "HOL-Library.Word" "HOL-Library.Multiset"
begin

unbundle bit_operations_syntax

section \<open>Network addresses: \<^verbatim>\<open>include/coap3/coap_address.h\<close>\<close>

text \<open>
  The header has three builds, selected by \<^verbatim>\<open>WITH_LWIP\<close> and \<^verbatim>\<open>WITH_CONTIKI\<close>.
  The POSIX build (neither macro defined) stores an address as a length and a union of
  socket addresses; the two embedded builds store a port and the IP address type of the
  network stack. Both are modelled, each function under the build that defines it.

  Pointers are modelled as \<open>'a option\<close>: \<open>None\<close> is \<^verbatim>\<open>NULL\<close>. The \<^verbatim>\<open>assert\<close> macro
  is the one of \<^verbatim>\<open>assert.h\<close> with \<^verbatim>\<open>NDEBUG\<close> undefined: a false condition aborts,
  which the model returns as the error value \<open>AssertionFailed\<close>.
\<close>

datatype error = AssertionFailed | NullDereference | OutOfBounds

subsection \<open>Memory of the POSIX build\<close>

text \<open>
  The union \<^verbatim>\<open>addr\<close> of \<^verbatim>\<open>coap_address_t\<close> is a block of bytes that the code reads and
  writes through four views (\<^verbatim>\<open>sa\<close>, \<^verbatim>\<open>sin\<close>, \<^verbatim>\<open>sin6\<close>, \<^verbatim>\<open>cun\<close>), so it is modelled as
  the list of its bytes and every member as a range of that list. The member types come
  from the system headers, which are not part of the repository; the layout below is the
  one of Linux on a little-endian machine:

  \<^item> \<^verbatim>\<open>struct sockaddr_in6\<close> (28 bytes): \<^verbatim>\<open>sin6_family\<close> at 0 (2 bytes), \<^verbatim>\<open>sin6_port\<close> at 2
    (2), \<^verbatim>\<open>sin6_flowinfo\<close> at 4 (4), \<^verbatim>\<open>sin6_addr\<close> at 8 (16), \<^verbatim>\<open>sin6_scope_id\<close> at 24 (4);
  \<^item> \<^verbatim>\<open>struct sockaddr_in\<close> (16 bytes): \<^verbatim>\<open>sin_family\<close> at 0 (2), \<^verbatim>\<open>sin_port\<close> at 2 (2),
    \<^verbatim>\<open>sin_addr.s_addr\<close> at 4 (4), \<^verbatim>\<open>sin_zero\<close> at 8 (8);
  \<^item> \<^verbatim>\<open>struct sockaddr\<close>: \<^verbatim>\<open>sa_family\<close> at 0 (2);
  \<^item> \<^verbatim>\<open>struct coap_sockaddr_un\<close> (28 bytes): \<^verbatim>\<open>sun_family\<close> at 0 (2), \<^verbatim>\<open>sun_path\<close> at 2
    (\<^verbatim>\<open>COAP_UNIX_PATH_MAX\<close> = 28 - 2 = 26 bytes).

  So the union has 28 bytes, and \<^verbatim>\<open>coap_address_t\<close> is the 4 bytes of \<^verbatim>\<open>size\<close>
  (\<^verbatim>\<open>socklen_t\<close>, an unsigned 32-bit integer) followed by the union, without padding.
\<close>

type_synonym byte = "8 word"
type_synonym socklen_t = "32 word"
type_synonym sa_family_t = "16 word"

text \<open>A member of a struct: its offset and its size in bytes.\<close>

type_synonym member = "nat \<times> nat"

definition load :: "byte list \<Rightarrow> member \<Rightarrow> byte list" where
  "load m f = take (snd f) (drop (fst f) m)"

definition store :: "byte list \<Rightarrow> nat \<Rightarrow> byte list \<Rightarrow> byte list" where
  "store m off vs = take off m @ vs @ drop (off + length vs) m"

text \<open>The value of an unsigned integer member, least significant byte first.\<close>

definition le_word :: "byte list \<Rightarrow> 'a::len word" where
  "le_word bs = foldr (\<lambda>b w. ucast b OR push_bit 8 w) bs 0"

text \<open>The offsets of the bytes that a member occupies.\<close>

definition member_bytes :: "member \<Rightarrow> nat set" where
  "member_bytes f = {fst f ..< fst f + snd f}"

definition sizeof_addr :: nat where
  "sizeof_addr = 28"

definition sizeof_sockaddr_in :: nat where
  "sizeof_sockaddr_in = 16"

definition m_sa_family :: member where "m_sa_family = (0, 2)"
definition m_sin_addr :: member where "m_sin_addr = (4, 4)"
definition m_sin6_family :: member where "m_sin6_family = (0, 2)"
definition m_sin6_port :: member where "m_sin6_port = (2, 2)"
definition m_sin6_flowinfo :: member where "m_sin6_flowinfo = (4, 4)"
definition m_sin6_addr :: member where "m_sin6_addr = (8, 16)"
definition m_sin6_scope_id :: member where "m_sin6_scope_id = (24, 4)"

definition AF_UNIX :: sa_family_t where "AF_UNIX = 1"
definition AF_INET :: sa_family_t where "AF_INET = 2"
definition AF_INET6 :: sa_family_t where "AF_INET6 = 10"

definition INADDR_ANY :: "32 word" where "INADDR_ANY = 0"

definition in6addr_any :: "byte list" where
  "in6addr_any = replicate 16 0"

text \<open>
  \<^verbatim>\<open>coap_address_t\<close> of the POSIX build. The field \<^verbatim>\<open>size\<close> is called \<open>size'\<close>
  here, since \<open>size\<close> is a constant of HOL.
\<close>

record coap_address_t =
  size' :: socklen_t
  addr :: "byte list"

definition sa_family :: "coap_address_t \<Rightarrow> sa_family_t" where
  "sa_family a = le_word (load (addr a) m_sa_family)"

definition sin_addr_s_addr :: "coap_address_t \<Rightarrow> 32 word" where
  "sin_addr_s_addr a = le_word (load (addr a) m_sin_addr)"

definition sin6_family :: "coap_address_t \<Rightarrow> sa_family_t" where
  "sin6_family a = le_word (load (addr a) m_sin6_family)"

definition sin6_port :: "coap_address_t \<Rightarrow> 16 word" where
  "sin6_port a = le_word (load (addr a) m_sin6_port)"

definition sin6_flowinfo :: "coap_address_t \<Rightarrow> 32 word" where
  "sin6_flowinfo a = le_word (load (addr a) m_sin6_flowinfo)"

definition sin6_addr :: "coap_address_t \<Rightarrow> byte list" where
  "sin6_addr a = load (addr a) m_sin6_addr"

definition sin6_scope_id :: "coap_address_t \<Rightarrow> 32 word" where
  "sin6_scope_id a = le_word (load (addr a) m_sin6_scope_id)"

text \<open>
  An assignment \<^verbatim>\<open>dst->addr.v.f = src->addr.v.f\<close> between members of the same type
  copies the bytes of the member.
\<close>

definition assign_member :: "member \<Rightarrow> coap_address_t \<Rightarrow> coap_address_t \<Rightarrow> coap_address_t" where
  "assign_member f src dst = dst\<lparr>addr := store (addr dst) (fst f) (load (addr src) f)\<rparr>"

text \<open>
  \<^verbatim>\<open>memcmp(p, q, n)\<close>: zero when the first \<open>n\<close> bytes agree, else the difference of the
  first two bytes that differ, read as \<^verbatim>\<open>unsigned char\<close>.
\<close>

fun memcmp :: "byte list \<Rightarrow> byte list \<Rightarrow> nat \<Rightarrow> int" where
  "memcmp (x # xs) (y # ys) (Suc n) =
     (if x = y then memcmp xs ys n else uint x - uint y)"
| "memcmp _ _ _ = 0"

subsection \<open>The POSIX build\<close>

text \<open>
  \<^verbatim>\<open>_coap_address_isany_impl\<close> (lines 136-151): a switch on the address family. A C
  comparison has the value 1 or 0.
\<close>

definition coap_address_isany_impl :: "coap_address_t \<Rightarrow> int" where
  "coap_address_isany_impl a =
     (if sa_family a = AF_INET then
        (if sin_addr_s_addr a = INADDR_ANY then 1 else 0)
      else if sa_family a = AF_INET6 then
        (if memcmp in6addr_any (sin6_addr a) (length in6addr_any) = 0 then 1 else 0)
      else 0)"

text \<open>
  \<^verbatim>\<open>coap_address_copy\<close> (lines 213-231), the \<^verbatim>\<open>#else\<close> branch. \<^verbatim>\<open>memset\<close> clears the whole
  destination, so nothing of its previous content survives. In the last branch
  \<^verbatim>\<open>memcpy\<close> copies \<^verbatim>\<open>src->size\<close> bytes from and to the union; a size above that of the
  union runs over both objects, which the model returns as \<open>OutOfBounds\<close>.
\<close>

definition coap_address_copy :: "coap_address_t \<Rightarrow> coap_address_t \<Rightarrow> error + coap_address_t" where
  "coap_address_copy dst src =
     (let d0 = dst\<lparr>size' := 0, addr := replicate sizeof_addr 0\<rparr>;
          d1 = d0\<lparr>size' := size' src\<rparr>
      in if sa_family src = AF_INET6 then
           Inr (assign_member m_sin6_scope_id src
                 (assign_member m_sin6_port src
                   (assign_member m_sin6_addr src
                     (assign_member m_sin6_family src d1))))
         else if sa_family src = AF_INET then
           Inr (assign_member (0, sizeof_sockaddr_in) src d1)
         else if unat (size' src) \<le> sizeof_addr then
           Inr (assign_member (0, unat (size' src)) src d1)
         else Inl OutOfBounds)"

subsection \<open>Functions shared by the builds\<close>

text \<open>
  \<^verbatim>\<open>coap_address_isany\<close> (lines 251-255) asserts its argument and calls the build's
  \<^verbatim>\<open>_coap_address_isany_impl\<close>, which is a parameter here.
\<close>

definition coap_address_isany :: "('a \<Rightarrow> int) \<Rightarrow> 'a option \<Rightarrow> error + int" where
  "coap_address_isany isany_impl a =
     (case a of None \<Rightarrow> Inl AssertionFailed | Some x \<Rightarrow> Inr (isany_impl x))"

subsection \<open>The embedded builds (LwIP, Contiki)\<close>

text \<open>
  \<^verbatim>\<open>coap_address_t\<close> of the embedded builds: a port and the address type of the stack
  (\<^verbatim>\<open>ip_addr_t\<close>, \<^verbatim>\<open>uip_ipaddr_t\<close>), which is a type parameter. The field \<^verbatim>\<open>addr\<close> is
  called \<open>ipaddr\<close> here, to keep it apart from the union of the POSIX build. The macros
  of the stacks (\<^verbatim>\<open>ip_addr_cmp\<close>, \<^verbatim>\<open>ip_addr_isany\<close>, \<^verbatim>\<open>ip_addr_ismulticast\<close> and their
  Contiki counterparts) are not part of the repository and are parameters.
\<close>

record 'ip coap_address_emb_t =
  port :: "16 word"
  ipaddr :: 'ip

text \<open>\<^verbatim>\<open>_coap_address_equals_impl\<close> (lines 53-55 and 86-88).\<close>

definition coap_address_equals_impl ::
  "('ip \<Rightarrow> 'ip \<Rightarrow> int) \<Rightarrow> 'ip coap_address_emb_t \<Rightarrow> 'ip coap_address_emb_t \<Rightarrow> int" where
  "coap_address_equals_impl ip_addr_cmp A B =
     (if port A = port B \<and> ip_addr_cmp (ipaddr A) (ipaddr B) \<noteq> 0 then 1 else 0)"

text \<open>\<^verbatim>\<open>_coap_address_isany_impl\<close> of LwIP (line 57) and of Contiki (line 91).\<close>

definition coap_address_isany_impl_lwip ::
  "('ip \<Rightarrow> int) \<Rightarrow> 'ip coap_address_emb_t \<Rightarrow> int" where
  "coap_address_isany_impl_lwip ip_addr_isany A = ip_addr_isany (ipaddr A)"

definition coap_address_isany_impl_contiki :: "'ip coap_address_emb_t \<Rightarrow> int" where
  "coap_address_isany_impl_contiki A = 0"

text \<open>\<^verbatim>\<open>_coap_is_mcast_impl\<close> (lines 59 and 93).\<close>

definition coap_is_mcast_impl :: "('ip \<Rightarrow> int) \<Rightarrow> 'ip coap_address_emb_t \<Rightarrow> int" where
  "coap_is_mcast_impl ip_addr_ismulticast Address = ip_addr_ismulticast (ipaddr Address)"

text \<open>\<^verbatim>\<open>coap_address_equals\<close> of the embedded builds (lines 239-243).\<close>

definition coap_address_equals ::
  "('ip \<Rightarrow> 'ip \<Rightarrow> int) \<Rightarrow> 'ip coap_address_emb_t option \<Rightarrow> 'ip coap_address_emb_t option
     \<Rightarrow> error + int" where
  "coap_address_equals ip_addr_cmp a b =
     (case a of
        None \<Rightarrow> Inl AssertionFailed
      | Some x \<Rightarrow>
          (case b of
             None \<Rightarrow> Inl AssertionFailed
           | Some y \<Rightarrow> Inr (coap_address_equals_impl ip_addr_cmp x y)))"

text \<open>
  \<^verbatim>\<open>coap_is_mcast\<close> of the embedded builds (lines 269-272): \<^verbatim>\<open>a && impl(a)\<close> does not
  evaluate its right operand when \<^verbatim>\<open>a\<close> is \<^verbatim>\<open>NULL\<close>, and has the value 1 or 0.
\<close>

definition coap_is_mcast :: "('ip \<Rightarrow> int) \<Rightarrow> 'ip coap_address_emb_t option \<Rightarrow> int" where
  "coap_is_mcast ip_addr_ismulticast a =
     (case a of
        None \<Rightarrow> 0
      | Some x \<Rightarrow> if coap_is_mcast_impl ip_addr_ismulticast x \<noteq> 0 then 1 else 0)"

text \<open>
  \<^verbatim>\<open>coap_address_get_port\<close> and \<^verbatim>\<open>coap_address_set_port\<close> of the embedded builds (lines
  40-51 and 73-84) read and write the port through the pointer, without an assertion.
  The byte-order macros of the stack are parameters.
\<close>

definition coap_address_get_port ::
  "(16 word \<Rightarrow> 16 word) \<Rightarrow> 'ip coap_address_emb_t option \<Rightarrow> error + 16 word" where
  "coap_address_get_port ntohs a =
     (case a of None \<Rightarrow> Inl NullDereference | Some x \<Rightarrow> Inr (ntohs (port x)))"

definition coap_address_set_port ::
  "(16 word \<Rightarrow> 16 word) \<Rightarrow> 'ip coap_address_emb_t option \<Rightarrow> 16 word
     \<Rightarrow> error + 'ip coap_address_emb_t" where
  "coap_address_set_port htons a p =
     (case a of None \<Rightarrow> Inl NullDereference | Some x \<Rightarrow> Inr (x\<lparr>port := htons p\<rparr>))"

text \<open>
  \<^verbatim>\<open>coap_address_copy\<close> of the embedded builds (line 216): \<^verbatim>\<open>memcpy\<close> of the whole
  object, so the destination becomes the source.
\<close>

definition coap_address_copy_emb ::
  "'ip coap_address_emb_t option \<Rightarrow> 'ip coap_address_emb_t option
     \<Rightarrow> error + 'ip coap_address_emb_t" where
  "coap_address_copy_emb dst src =
     (case dst of
        None \<Rightarrow> Inl NullDereference
      | Some d \<Rightarrow> (case src of None \<Rightarrow> Inl NullDereference | Some s \<Rightarrow> Inr s))"

section \<open>The message codec\<close>

text \<open>
  \<^verbatim>\<open>coap_internal.h\<close> includes \<^verbatim>\<open>coap_pdu_internal.h\<close> (line 101), but neither that header
  nor the source file of the codec is among the files that this development covers. The
  definitions of this section follow sections 3, 4.1, 4.2 and 6 of the specification
  instead.
\<close>




























section \<open>Properties of the address functions\<close>

lemmas member_defs = m_sa_family_def m_sin_addr_def m_sin6_family_def m_sin6_port_def
  m_sin6_flowinfo_def m_sin6_addr_def m_sin6_scope_id_def

lemma memcmp_zero_iff:
  "n \<le> length xs \<Longrightarrow> n \<le> length ys \<Longrightarrow> memcmp xs ys n = 0 \<longleftrightarrow> take n xs = take n ys"
proof (induction xs ys n rule: memcmp.induct)
  case (1 x xs y ys n)
  then show ?case by (auto simp: word_uint_eq_iff)
qed auto

lemma Suc_Suc_diff_2: "\<not> i < 2 \<Longrightarrow> Suc (Suc (i - 2)) = i"
  by arith

lemma le_word_zeros: "le_word (replicate n 0) = 0"
  by (induction n) (simp_all add: le_word_def)

text \<open>
  The four assignments of the \<^verbatim>\<open>AF_INET6\<close> branch, applied to the cleared destination,
  leave the bytes of the source with those of \<^verbatim>\<open>sin6_flowinfo\<close> cleared.
\<close>

lemma inet6_assignments:
  assumes len: "length (addr src) = 28"
  shows "addr (assign_member m_sin6_scope_id src
                 (assign_member m_sin6_port src
                   (assign_member m_sin6_addr src
                     (assign_member m_sin6_family src
                       (dst\<lparr>size' := 0, addr := replicate sizeof_addr 0\<rparr>\<lparr>size' := size' src\<rparr>)))))
    = take 4 (addr src) @ replicate 4 0 @ drop 8 (addr src)"
  using len
  apply (simp add: assign_member_def store_def load_def member_defs sizeof_addr_def)
  apply (simp add: list_eq_iff_nth_eq nth_append min_def)
  apply (auto simp: nth_append Suc_Suc_diff_2)
  done

lemma inet6_copy:
  assumes len: "length (addr src) = 28" and fam: "sa_family src = AF_INET6"
  shows "coap_address_copy dst src =
     Inr (dst\<lparr>size' := size' src,
              addr := take 4 (addr src) @ replicate 4 0 @ drop 8 (addr src)\<rparr>)"
  using fam inet6_assignments [OF len, of dst]
  apply (simp add: coap_address_copy_def Let_def)
  apply (simp add: assign_member_def)
  done

text \<open>
  C8. In the POSIX build, for a source whose family is \<^verbatim>\<open>AF_INET6\<close>,
  \<^verbatim>\<open>coap_address_copy(dst, src)\<close> succeeds whatever \<^verbatim>\<open>dst\<close> held before, and afterwards
  \<^verbatim>\<open>size\<close>, \<^verbatim>\<open>sin6_family\<close>, \<^verbatim>\<open>sin6_addr\<close>, \<^verbatim>\<open>sin6_port\<close> and \<^verbatim>\<open>sin6_scope_id\<close> of the
  destination equal those of the source, while every byte of the destination's union
  outside these four members is zero. In particular \<^verbatim>\<open>sin6_flowinfo\<close> of the destination
  is zero, so a source with a non-zero flow information is not copied byte for byte.
\<close>

theorem coap_address_copy_inet6:
  assumes len: "length (addr src) = sizeof_addr" and fam: "sa_family src = AF_INET6"
  shows "\<exists>d. coap_address_copy dst src = Inr d
     \<and> size' d = size' src
     \<and> sin6_family d = sin6_family src
     \<and> sin6_addr d = sin6_addr src
     \<and> sin6_port d = sin6_port src
     \<and> sin6_scope_id d = sin6_scope_id src
     \<and> length (addr d) = sizeof_addr
     \<and> (\<forall>i < sizeof_addr. i \<notin> member_bytes m_sin6_family \<union> member_bytes m_sin6_addr
            \<union> member_bytes m_sin6_port \<union> member_bytes m_sin6_scope_id \<longrightarrow> addr d ! i = 0)
     \<and> sin6_flowinfo d = 0
     \<and> (sin6_flowinfo src \<noteq> 0 \<longrightarrow> d \<noteq> src)"
proof -
  let ?d = "dst\<lparr>size' := size' src,
                addr := take 4 (addr src) @ replicate 4 0 @ drop 8 (addr src)\<rparr>"
  from len have l28: "length (addr src) = 28" by (simp add: sizeof_addr_def)
  have c: "coap_address_copy dst src = Inr ?d" by (rule inet6_copy [OF l28 fam])
  have 1: "size' ?d = size' src" by simp
  have 2: "sin6_family ?d = sin6_family src"
    using l28 by (simp add: sin6_family_def load_def member_defs)
  have 3: "sin6_addr ?d = sin6_addr src"
    using l28 by (simp add: sin6_addr_def load_def member_defs)
  have 4: "sin6_port ?d = sin6_port src"
    using l28 by (simp add: sin6_port_def load_def member_defs drop_take)
  have 5: "sin6_scope_id ?d = sin6_scope_id src"
    using l28 by (simp add: sin6_scope_id_def load_def member_defs)
  have 6: "length (addr ?d) = sizeof_addr"
    using l28 by (simp add: sizeof_addr_def)
  have 7: "\<forall>i < sizeof_addr. i \<notin> member_bytes m_sin6_family \<union> member_bytes m_sin6_addr
            \<union> member_bytes m_sin6_port \<union> member_bytes m_sin6_scope_id \<longrightarrow> addr ?d ! i = 0"
    using l28 by (auto simp: sizeof_addr_def member_bytes_def member_defs nth_append)
  have 8: "sin6_flowinfo ?d = 0"
    using l28 le_word_zeros [of 4, where 'a = 32]
    by (simp add: sin6_flowinfo_def load_def member_defs)
  have 9: "sin6_flowinfo src \<noteq> 0 \<longrightarrow> ?d \<noteq> src"
    using 8 by auto
  from c 1 2 3 4 5 6 7 8 9 show ?thesis by blast
qed

text \<open>
  The address \<^verbatim>\<open>[::1]:5683\<close> with flow information \<^verbatim>\<open>0x04030201\<close> and scope 5, copied
  over a destination full of \<^verbatim>\<open>0xff\<close> bytes.
\<close>

theorem coap_address_copy_inet6_witness:
  "length (addr \<lparr>size' = 28, addr = [10, 0, 0x16, 0x33, 1, 2, 3, 4,
       0, 0, 0, 0, 0, 0, 0, 0, 0, 0, 0, 0, 0, 0, 0, 1, 5, 0, 0, 0]\<rparr>) = sizeof_addr
   \<and> sa_family \<lparr>size' = 28, addr = [10, 0, 0x16, 0x33, 1, 2, 3, 4,
       0, 0, 0, 0, 0, 0, 0, 0, 0, 0, 0, 0, 0, 0, 0, 1, 5, 0, 0, 0]\<rparr> = AF_INET6
   \<and> (\<exists>d. coap_address_copy \<lparr>size' = 7, addr = replicate 28 255\<rparr>
          \<lparr>size' = 28, addr = [10, 0, 0x16, 0x33, 1, 2, 3, 4,
            0, 0, 0, 0, 0, 0, 0, 0, 0, 0, 0, 0, 0, 0, 0, 1, 5, 0, 0, 0]\<rparr> = Inr d
        \<and> size' d = 28 \<and> sin6_family d = 10 \<and> sin6_port d = 0x3316
        \<and> sin6_addr d = [0, 0, 0, 0, 0, 0, 0, 0, 0, 0, 0, 0, 0, 0, 0, 1]
        \<and> sin6_scope_id d = 5 \<and> sin6_flowinfo d = 0
        \<and> d \<noteq> \<lparr>size' = 28, addr = [10, 0, 0x16, 0x33, 1, 2, 3, 4,
            0, 0, 0, 0, 0, 0, 0, 0, 0, 0, 0, 0, 0, 0, 0, 1, 5, 0, 0, 0]\<rparr>)"
proof -
  let ?src = "\<lparr>size' = 28, addr = [10, 0, 0x16, 0x33, 1, 2, 3, 4,
       0, 0, 0, 0, 0, 0, 0, 0, 0, 0, 0, 0, 0, 0, 0, 1, 5, 0, 0, 0 :: byte]\<rparr>"
  have len: "length (addr ?src) = sizeof_addr"
    by (simp add: sizeof_addr_def)
  have fam: "sa_family ?src = AF_INET6"
    by (simp add: sa_family_def load_def m_sa_family_def le_word_def AF_INET6_def)
  have flow: "sin6_flowinfo ?src \<noteq> 0"
    by (simp add: sin6_flowinfo_def load_def m_sin6_flowinfo_def le_word_def)
  have vals: "size' ?src = 28" "sin6_family ?src = 10" "sin6_port ?src = 0x3316"
    "sin6_addr ?src = [0, 0, 0, 0, 0, 0, 0, 0, 0, 0, 0, 0, 0, 0, 0, 1]"
    "sin6_scope_id ?src = 5"
    by (simp_all add: sin6_family_def sin6_port_def sin6_addr_def sin6_scope_id_def
        load_def member_defs le_word_def)
  from coap_address_copy_inet6 [OF len fam, of "\<lparr>size' = 7, addr = replicate 28 255\<rparr>"]
  obtain d where "coap_address_copy \<lparr>size' = 7, addr = replicate 28 255\<rparr> ?src = Inr d"
    "size' d = size' ?src" "sin6_family d = sin6_family ?src" "sin6_addr d = sin6_addr ?src"
    "sin6_port d = sin6_port ?src" "sin6_scope_id d = sin6_scope_id ?src"
    "sin6_flowinfo d = 0" "sin6_flowinfo ?src \<noteq> 0 \<longrightarrow> d \<noteq> ?src"
    by blast
  with flow vals len fam show ?thesis by metis
qed

text \<open>
  C9. In the POSIX build, for a non-\<^verbatim>\<open>NULL\<close> address, \<^verbatim>\<open>coap_address_isany\<close> returns 1
  for an \<^verbatim>\<open>AF_INET\<close> address exactly when its \<^verbatim>\<open>s_addr\<close> is \<^verbatim>\<open>INADDR_ANY\<close> (and 0
  otherwise), returns 1 for an \<^verbatim>\<open>AF_INET6\<close> address exactly when its 16 address bytes
  are those of \<^verbatim>\<open>in6addr_any\<close> (and 0 otherwise), and returns 0 for an address of any
  other family.
\<close>

theorem coap_address_isany_posix:
  assumes len: "length (addr a) = sizeof_addr"
  shows "(sa_family a = AF_INET \<longrightarrow>
            coap_address_isany coap_address_isany_impl (Some a)
              = Inr (if sin_addr_s_addr a = INADDR_ANY then 1 else 0))
       \<and> (sa_family a = AF_INET6 \<longrightarrow>
            coap_address_isany coap_address_isany_impl (Some a)
              = Inr (if sin6_addr a = in6addr_any then 1 else 0))
       \<and> (sa_family a \<noteq> AF_INET \<and> sa_family a \<noteq> AF_INET6 \<longrightarrow>
            coap_address_isany coap_address_isany_impl (Some a) = Inr 0)"
proof -
  have l6: "length (sin6_addr a) = 16"
    using len by (simp add: sin6_addr_def load_def sizeof_addr_def m_sin6_addr_def)
  have "memcmp in6addr_any (sin6_addr a) (length in6addr_any) = 0
          \<longleftrightarrow> sin6_addr a = in6addr_any"
    using l6 memcmp_zero_iff [of 16 in6addr_any "sin6_addr a"]
    by (auto simp: in6addr_any_def)
  moreover have "AF_INET \<noteq> AF_INET6"
    by (simp add: AF_INET_def AF_INET6_def)
  ultimately show ?thesis
    by (simp add: coap_address_isany_def coap_address_isany_impl_def)
qed

lemma fam_eval:
  "sa_family \<lparr>size' = s, addr = b0 # b1 # bs\<rparr> = ucast b0 OR push_bit 8 (ucast b1)"
  by (simp add: sa_family_def load_def m_sa_family_def le_word_def)

text \<open>
  The IPv4 wildcard and loopback addresses, the IPv6 wildcard (with a non-zero flow
  information and scope, which do not count) and loopback addresses, and a unix-domain
  address whose bytes after the family are all zero.
\<close>

theorem coap_address_isany_posix_witness:
  "coap_address_isany coap_address_isany_impl
      (Some \<lparr>size' = 16, addr = [2, 0, 0x16, 0x33, 0, 0, 0, 0] @ replicate 20 0\<rparr>) = Inr 1
   \<and> coap_address_isany coap_address_isany_impl
      (Some \<lparr>size' = 16, addr = [2, 0, 0x16, 0x33, 127, 0, 0, 1] @ replicate 20 0\<rparr>) = Inr 0
   \<and> coap_address_isany coap_address_isany_impl
      (Some \<lparr>size' = 28, addr = [10, 0, 0x16, 0x33, 9, 9, 9, 9] @ replicate 16 0 @ [3, 0, 0, 0]\<rparr>) = Inr 1
   \<and> coap_address_isany coap_address_isany_impl
      (Some \<lparr>size' = 28, addr = [10, 0, 0x16, 0x33, 0, 0, 0, 0] @ replicate 15 0 @ [1, 0, 0, 0, 0]\<rparr>) = Inr 0
   \<and> coap_address_isany coap_address_isany_impl
      (Some \<lparr>size' = 28, addr = [1, 0] @ replicate 26 0\<rparr>) = Inr 0"
proof -
  let ?a = "\<lparr>size' = 16, addr = [2, 0, 0x16, 0x33, 0, 0, 0, 0] @ replicate 20 (0::byte)\<rparr>"
  let ?b = "\<lparr>size' = 16, addr = [2, 0, 0x16, 0x33, 127, 0, 0, 1] @ replicate 20 (0::byte)\<rparr>"
  let ?c = "\<lparr>size' = 28, addr = [10, 0, 0x16, 0x33, 9, 9, 9, 9] @ replicate 16 (0::byte) @ [3, 0, 0, 0]\<rparr>"
  let ?d = "\<lparr>size' = 28, addr = [10, 0, 0x16, 0x33, 0, 0, 0, 0] @ replicate 15 (0::byte) @ [1, 0, 0, 0, 0]\<rparr>"
  let ?e = "\<lparr>size' = 28, addr = [1, 0] @ replicate 26 (0::byte)\<rparr>"
  have len: "length (addr ?a) = sizeof_addr" "length (addr ?b) = sizeof_addr"
    "length (addr ?c) = sizeof_addr" "length (addr ?d) = sizeof_addr"
    "length (addr ?e) = sizeof_addr"
    by (simp_all add: sizeof_addr_def)
  have fam: "sa_family ?a = AF_INET" "sa_family ?b = AF_INET"
    "sa_family ?c = AF_INET6" "sa_family ?d = AF_INET6"
    "sa_family ?e \<noteq> AF_INET \<and> sa_family ?e \<noteq> AF_INET6"
    by (simp_all add: fam_eval AF_INET_def AF_INET6_def)
  have v4: "sin_addr_s_addr ?a = INADDR_ANY" "sin_addr_s_addr ?b \<noteq> INADDR_ANY"
    by (simp_all add: sin_addr_s_addr_def load_def m_sin_addr_def le_word_def INADDR_ANY_def)
  have v6: "sin6_addr ?c = in6addr_any" "sin6_addr ?d \<noteq> in6addr_any"
    by (simp_all add: sin6_addr_def load_def m_sin6_addr_def in6addr_any_def eval_nat_numeral)
  show ?thesis
    using coap_address_isany_posix [OF len(1)] coap_address_isany_posix [OF len(2)]
      coap_address_isany_posix [OF len(3)] coap_address_isany_posix [OF len(4)]
      coap_address_isany_posix [OF len(5)] fam v4 v6
    by simp
qed

text \<open>
  C10. In the embedded builds \<^verbatim>\<open>coap_is_mcast\<close> accepts \<^verbatim>\<open>NULL\<close> and returns 0 for it
  (and the truth value of the stack's multicast test otherwise), whereas
  \<^verbatim>\<open>coap_address_isany\<close> and \<^verbatim>\<open>coap_address_equals\<close> fail their assertion on a \<^verbatim>\<open>NULL\<close>
  argument, in either position for the latter. The remaining functions of the interface
  that take an address pointer dereference it, so \<^verbatim>\<open>NULL\<close> is an error for them too.
\<close>

theorem coap_is_mcast_null:
  "coap_is_mcast ip_addr_ismulticast None = 0
   \<and> coap_is_mcast ip_addr_ismulticast (Some x)
       = (if ip_addr_ismulticast (ipaddr x) \<noteq> 0 then 1 else 0)
   \<and> coap_address_isany isany_impl None = Inl AssertionFailed
   \<and> coap_address_isany isany_impl (Some y) = Inr (isany_impl y)
   \<and> coap_address_equals ip_addr_cmp None b = Inl AssertionFailed
   \<and> coap_address_equals ip_addr_cmp a None = Inl AssertionFailed
   \<and> coap_address_equals ip_addr_cmp (Some u) (Some v)
       = Inr (coap_address_equals_impl ip_addr_cmp u v)
   \<and> coap_address_get_port ntohs None = Inl NullDereference
   \<and> coap_address_set_port htons None p = Inl NullDereference
   \<and> coap_address_copy_emb None src = Inl NullDereference
   \<and> coap_address_copy_emb dst None = Inl NullDereference"
  by (simp add: coap_is_mcast_def coap_is_mcast_impl_def coap_address_isany_def
      coap_address_equals_def coap_address_get_port_def coap_address_set_port_def
      coap_address_copy_emb_def split: option.split)

section \<open>Properties of the message codec\<close>
































end
